theory Spec2Isabelle
  imports Main "HOL-Library.Word"
begin

section \<open>Data model\<close>

text \<open>
  Page ids are signed integers (\<open>page_id_t\<close>); frame ids index the frame array.  The
  source's \<open>frame_id_t\<close> is a signed integer as well, but every frame id the code ever
  produces is an index \<open>static_cast<int>(i)\<close> of the constructor's loop or the
  value-initialised \<open>0\<close> of \<open>page_table_[page_id]\<close>, so frame ids are naturals here.
  The fields of the C++ classes carry a trailing underscore, which is not a legal
  name here: \<open>page_id_\<close> is \<open>page_id\<close>, \<open>pin_count_\<close> is \<open>pin_count\<close>, and so on.
\<close>

type_synonym page_id_t = int
type_synonym frame_id_t = nat
type_synonym bytes = "8 word list"

text \<open>
  Modelled from the spec: the sentinel \<open>INVALID_PAGE_ID\<close> of \<open>common/config.h\<close>
  (a header that is not part of the sources at hand), canonically \<open>-1\<close>.
\<close>

definition INVALID_PAGE_ID :: page_id_t where
  "INVALID_PAGE_ID = - 1"

text \<open>
  The class \<open>Page\<close>: the byte buffer of a frame and its bookkeeping.  \<open>pin_count_\<close> is
  an \<open>int\<close> of 32 bits: it is a word here, read as a signed number by \<open>sint\<close>, and
  \<open>pin_count_++\<close> and \<open>pin_count_--\<close> wrap around as the machine's addition and
  subtraction do (from 2147483647 to -2147483648).
\<close>

record Page =
  data :: bytes
  page_id :: page_id_t
  pin_count :: "32 word"
  is_dirty :: bool

text \<open>
  Modelled from the spec: the default constructor of \<open>Page\<close> (\<open>storage/page/page.h\<close>
  is not part of the sources at hand).  An empty frame has a zeroed buffer of
  \<open>PAGE_SIZE\<close> bytes, \<open>page_id = INVALID_PAGE_ID\<close>, \<open>pin_count = 0\<close> and a clear dirty
  bit.  \<open>PAGE_SIZE\<close> is a parameter.
\<close>

definition new_Page :: "nat \<Rightarrow> Page" where
  "new_Page PAGE_SIZE =
     \<lparr>data = replicate PAGE_SIZE 0, page_id = INVALID_PAGE_ID, pin_count = 0, is_dirty = False\<rparr>"

subsection \<open>The disk manager\<close>

text \<open>
  Modelled from the spec: the disk manager is an external collaborator whose code
  is not part of the sources at hand.  \<open>read_page\<close> hands out the current on-disk
  contents, \<open>write_page\<close> persists a buffer, \<open>allocate_page\<close> returns a fresh id and
  \<open>deallocate_page\<close> marks an id free.  Fresh ids come from a counter.  Every call is
  appended to \<open>disk_calls\<close>, so that "a write is issued" is a fact about the state.
\<close>

datatype disk_call =
    CallReadPage page_id_t
  | CallWritePage page_id_t bytes
  | CallAllocatePage page_id_t
  | CallDeallocatePage page_id_t

record DiskManager =
  disk_pages :: "page_id_t \<Rightarrow> bytes"
  next_page_id :: page_id_t
  disk_calls :: "disk_call list"

definition ReadPage :: "DiskManager \<Rightarrow> page_id_t \<Rightarrow> bytes \<times> DiskManager" where
  "ReadPage d pid = (disk_pages d pid, d\<lparr>disk_calls := disk_calls d @ [CallReadPage pid]\<rparr>)"

definition WritePage :: "DiskManager \<Rightarrow> page_id_t \<Rightarrow> bytes \<Rightarrow> DiskManager" where
  "WritePage d pid buf =
     d\<lparr>disk_pages := (disk_pages d)(pid := buf),
       disk_calls := disk_calls d @ [CallWritePage pid buf]\<rparr>"

definition AllocatePage :: "DiskManager \<Rightarrow> page_id_t \<times> DiskManager" where
  "AllocatePage d =
     (next_page_id d,
      d\<lparr>next_page_id := next_page_id d + 1,
        disk_calls := disk_calls d @ [CallAllocatePage (next_page_id d)]\<rparr>)"

definition DeallocatePage :: "DiskManager \<Rightarrow> page_id_t \<Rightarrow> DiskManager" where
  "DeallocatePage d pid = d\<lparr>disk_calls := disk_calls d @ [CallDeallocatePage pid]\<rparr>"

section \<open>The LRU replacer (\<open>lru_replacer.cpp\<close>)\<close>

text \<open>
  \<open>victim_queue\<close> is the \<open>std::list\<close> of evictable frames, oldest first, and
  \<open>frame_in_replacer\<close> the \<open>std::unordered_set\<close> of its members.  Every operation takes
  \<open>replacer_mutex\<close> on entry and gives it back on each of its exits, and nothing else
  touches that mutex, so it is left out of the state.
\<close>

record LRUReplacer =
  max_pages :: nat
  victim_queue :: "frame_id_t list"
  frame_in_replacer :: "frame_id_t set"

definition new_LRUReplacer :: "nat \<Rightarrow> LRUReplacer" where
  "new_LRUReplacer num_pages =
     \<lparr>max_pages = num_pages, victim_queue = [], frame_in_replacer = {}\<rparr>"

definition Victim :: "LRUReplacer \<Rightarrow> frame_id_t option \<times> LRUReplacer" where
  "Victim r =
     (case victim_queue r of
        [] \<Rightarrow> (None, r)
      | f # q \<Rightarrow> (Some f, r\<lparr>frame_in_replacer := frame_in_replacer r - {f}, victim_queue := q\<rparr>))"

text \<open>
  \<open>Pin\<close> scans the queue for the first occurrence of the frame; only when the scan
  finds one are the queue entry and the set entry erased.
\<close>

definition Pin :: "LRUReplacer \<Rightarrow> frame_id_t \<Rightarrow> LRUReplacer" where
  "Pin r frame_id =
     (if frame_id \<notin> frame_in_replacer r then r
      else if frame_id \<in> set (victim_queue r)
      then r\<lparr>victim_queue := remove1 frame_id (victim_queue r),
             frame_in_replacer := frame_in_replacer r - {frame_id}\<rparr>
      else r)"

definition Unpin :: "LRUReplacer \<Rightarrow> frame_id_t \<Rightarrow> LRUReplacer" where
  "Unpin r frame_id =
     (if frame_id \<in> frame_in_replacer r then r
      else if length (victim_queue r) < max_pages r
      then r\<lparr>frame_in_replacer := insert frame_id (frame_in_replacer r),
             victim_queue := victim_queue r @ [frame_id]\<rparr>
      else r)"

definition Size :: "LRUReplacer \<Rightarrow> nat" where
  "Size r = length (victim_queue r)"

section \<open>The buffer pool manager (\<open>buffer_pool_manager.cpp\<close>)\<close>

text \<open>
  \<open>latch\<close> is \<open>True\<close> while the \<open>std::mutex\<close> \<open>latch_\<close> is held.  \<open>page_table\<close> is the
  \<open>std::unordered_map\<close> from page ids to frame ids, \<open>free_list\<close> the \<open>std::list\<close> of free
  frames, \<open>pages\<close> the frame array.  The log manager is stored and never used.
\<close>

record BufferPoolManager =
  pool_size :: nat
  pages :: "Page list"
  page_table :: "page_id_t \<rightharpoonup> frame_id_t"
  free_list :: "frame_id_t list"
  replacer :: LRUReplacer
  disk_manager :: DiskManager
  latch :: bool

text \<open>
  What a call does: it returns a value and a new state; or it never gets the latch,
  because an earlier call left it held (\<open>Blocked\<close>); or it indexes the frame array
  outside its bounds, which is undefined behaviour in C++ (\<open>OutOfBounds\<close>).
\<close>

datatype 'a outcome = Return 'a | Blocked | OutOfBounds

definition new_BufferPoolManager :: "nat \<Rightarrow> nat \<Rightarrow> DiskManager \<Rightarrow> BufferPoolManager" where
  "new_BufferPoolManager n PAGE_SIZE disk =
     \<lparr>pool_size = n,
      pages = replicate n (new_Page PAGE_SIZE),
      page_table = Map.empty,
      free_list = [0..<n],
      replacer = new_LRUReplacer n,
      disk_manager = disk,
      latch = False\<rparr>"

text \<open>
  The frame selection shared by \<open>FetchPageImpl\<close> and \<open>NewPageImpl\<close>: the head of the
  free list when there is one, else the replacer's victim, else nothing.
\<close>

definition find_replacement :: "BufferPoolManager \<Rightarrow> (frame_id_t \<times> BufferPoolManager) option" where
  "find_replacement s =
     (case free_list s of
        f # fs \<Rightarrow> Some (f, s\<lparr>free_list := fs\<rparr>)
      | [] \<Rightarrow>
          (case Victim (replacer s) of
             (None, r) \<Rightarrow> None
           | (Some f, r) \<Rightarrow> Some (f, s\<lparr>replacer := r\<rparr>)))"

definition set_page :: "BufferPoolManager \<Rightarrow> frame_id_t \<Rightarrow> Page \<Rightarrow> BufferPoolManager" where
  "set_page s frame_id p = s\<lparr>pages := (pages s)[frame_id := p]\<rparr>"

definition FetchPageImpl ::
  "BufferPoolManager \<Rightarrow> page_id_t \<Rightarrow> (frame_id_t option \<times> BufferPoolManager) outcome" where
  "FetchPageImpl s0 pid =
     (if latch s0 then Blocked
      else
        let s = s0\<lparr>latch := True\<rparr> in
        case page_table s pid of
          Some frameId \<Rightarrow>
            let s = s\<lparr>replacer := Pin (replacer s) frameId\<rparr> in
            if frameId < length (pages s) then
              let fr = pages s ! frameId;
                  s = set_page s frameId (fr\<lparr>pin_count := pin_count fr + 1\<rparr>);
                  s = s\<lparr>latch := False\<rparr>
              in Return (Some frameId, s)
            else OutOfBounds
        | None \<Rightarrow>
            (case find_replacement s of
               None \<Rightarrow> Return (None, s)
             | Some (new_frame_id, s) \<Rightarrow>
                 if new_frame_id < length (pages s) then
                   let new_frame = pages s ! new_frame_id;
                       s = (if is_dirty new_frame
                            then s\<lparr>disk_manager :=
                                     WritePage (disk_manager s) (page_id new_frame) (data new_frame)\<rparr>
                            else s);
                       s = s\<lparr>page_table := (page_table s)(page_id new_frame := None)\<rparr>;
                       s = s\<lparr>page_table := (page_table s)(pid \<mapsto> new_frame_id)\<rparr>;
                       (buf, d) = ReadPage (disk_manager s) pid;
                       s = s\<lparr>disk_manager := d\<rparr>;
                       s = set_page s new_frame_id
                             (new_frame\<lparr>data := buf, is_dirty := False, pin_count := 1, page_id := pid\<rparr>);
                       s = s\<lparr>replacer := Pin (replacer s) new_frame_id\<rparr>;
                       s = s\<lparr>latch := False\<rparr>
                   in Return (Some new_frame_id, s)
                 else OutOfBounds))"

text \<open>
  \<open>page_table_[page_id]\<close> is \<open>std::unordered_map::operator[]\<close>: on a key that is absent
  it inserts the key with a value-initialised frame id, \<open>0\<close>, and yields that.
\<close>

definition page_table_index ::
  "BufferPoolManager \<Rightarrow> page_id_t \<Rightarrow> frame_id_t \<times> BufferPoolManager" where
  "page_table_index s pid =
     (case page_table s pid of
        Some f \<Rightarrow> (f, s)
      | None \<Rightarrow> (0, s\<lparr>page_table := (page_table s)(pid \<mapsto> 0)\<rparr>))"

definition UnpinPageImpl ::
  "BufferPoolManager \<Rightarrow> page_id_t \<Rightarrow> bool \<Rightarrow> (bool \<times> BufferPoolManager) outcome" where
  "UnpinPageImpl s0 pid dirty =
     (if latch s0 then Blocked
      else
        let s = s0\<lparr>latch := True\<rparr>;
            (frame_id, s) = page_table_index s pid
        in
        if frame_id < length (pages s) then
          let s = set_page s frame_id ((pages s ! frame_id)\<lparr>is_dirty := dirty\<rparr>) in
          if sint (pin_count (pages s ! frame_id)) \<le> 0 then Return (False, s\<lparr>latch := False\<rparr>)
          else
            let fr = pages s ! frame_id;
                s = set_page s frame_id (fr\<lparr>pin_count := pin_count fr - 1\<rparr>);
                s = (if pin_count (pages s ! frame_id) = 0
                     then s\<lparr>replacer := Unpin (replacer s) frame_id\<rparr> else s)
            in Return (True, s\<lparr>latch := False\<rparr>)
        else OutOfBounds)"

definition FlushPageImpl ::
  "BufferPoolManager \<Rightarrow> page_id_t \<Rightarrow> (bool \<times> BufferPoolManager) outcome" where
  "FlushPageImpl s0 pid =
     (if latch s0 then Blocked
      else
        let s = s0\<lparr>latch := True\<rparr> in
        if pid = INVALID_PAGE_ID then Return (False, s)
        else
          case page_table s pid of
            None \<Rightarrow> Return (False, s)
          | Some frame_id \<Rightarrow>
              if frame_id < length (pages s) then
                let fr = pages s ! frame_id;
                    s = s\<lparr>disk_manager := WritePage (disk_manager s) pid (data fr)\<rparr>;
                    s = set_page s frame_id (fr\<lparr>is_dirty := False\<rparr>);
                    s = s\<lparr>latch := False\<rparr>
                in Return (True, s)
              else OutOfBounds)"

text \<open>
  \<open>NewPageImpl\<close> returns the frame together with the id written to its out-parameter
  \<open>*page_id\<close>; the out-parameter is written on success only.
\<close>

definition NewPageImpl ::
  "BufferPoolManager \<Rightarrow> ((page_id_t \<times> frame_id_t) option \<times> BufferPoolManager) outcome" where
  "NewPageImpl s0 =
     (if latch s0 then Blocked
      else
        let s = s0\<lparr>latch := True\<rparr> in
        case find_replacement s of
          None \<Rightarrow> Return (None, s\<lparr>latch := False\<rparr>)
        | Some (frame_id, s) \<Rightarrow>
            let (new_id, d) = AllocatePage (disk_manager s);
                s = s\<lparr>disk_manager := d\<rparr>
            in
            if frame_id < length (pages s) then
              let fr = pages s ! frame_id;
                  s = (if page_id fr \<noteq> INVALID_PAGE_ID
                       then s\<lparr>disk_manager := WritePage (disk_manager s) (page_id fr) (data fr)\<rparr>
                       else s);
                  s = s\<lparr>page_table := (page_table s)(page_id fr := None)\<rparr>;
                  fr = fr\<lparr>is_dirty := False, pin_count := 1, page_id := new_id\<rparr>;
                  s = s\<lparr>replacer := Pin (replacer s) frame_id\<rparr>;
                  s = s\<lparr>page_table := (page_table s)(new_id \<mapsto> frame_id)\<rparr>;
                  s = set_page s frame_id (fr\<lparr>data := map (\<lambda>b. 0) (data fr)\<rparr>);
                  s = s\<lparr>latch := False\<rparr>
              in Return (Some (new_id, frame_id), s)
            else OutOfBounds)"

definition DeletePageImpl ::
  "BufferPoolManager \<Rightarrow> page_id_t \<Rightarrow> (bool \<times> BufferPoolManager) outcome" where
  "DeletePageImpl s0 pid =
     (if latch s0 then Blocked
      else
        let s = s0\<lparr>latch := True\<rparr> in
        case page_table s pid of
          None \<Rightarrow> Return (True, s\<lparr>latch := False\<rparr>)
        | Some frame_id \<Rightarrow>
            if frame_id < length (pages s) then
              let fr = pages s ! frame_id in
              if sint (pin_count fr) > 0 then Return (False, s\<lparr>latch := False\<rparr>)
              else
                let s = s\<lparr>disk_manager := DeallocatePage (disk_manager s) pid\<rparr>;
                    s = s\<lparr>page_table := (page_table s)(pid := None)\<rparr>;
                    s = s\<lparr>free_list := free_list s @ [frame_id]\<rparr>;
                    s = set_page s frame_id (fr\<lparr>page_id := INVALID_PAGE_ID, is_dirty := False\<rparr>);
                    s = s\<lparr>latch := False\<rparr>
                in Return (True, s)
            else OutOfBounds)"

section \<open>Running the public operations\<close>

text \<open>
  The public operations \<open>FetchPage\<close>, \<open>UnpinPage\<close>, \<open>FlushPage\<close>, \<open>NewPage\<close> and
  \<open>DeletePage\<close> forward to the \<open>Impl\<close> functions above.  A trace of requests is run
  from left to right; it stops where a call does not return.
\<close>

datatype request =
    FetchPage page_id_t
  | UnpinPage page_id_t bool
  | FlushPage page_id_t
  | NewPage
  | DeletePage page_id_t

datatype reply =
    Frame "frame_id_t option"
  | Flag bool
  | NewFrame "(page_id_t \<times> frame_id_t) option"

fun call :: "request \<Rightarrow> BufferPoolManager \<Rightarrow> (reply \<times> BufferPoolManager) outcome" where
  "call (FetchPage pid) s = map_outcome (map_prod Frame id) (FetchPageImpl s pid)"
| "call (UnpinPage pid dirty) s = map_outcome (map_prod Flag id) (UnpinPageImpl s pid dirty)"
| "call (FlushPage pid) s = map_outcome (map_prod Flag id) (FlushPageImpl s pid)"
| "call NewPage s = map_outcome (map_prod NewFrame id) (NewPageImpl s)"
| "call (DeletePage pid) s = map_outcome (map_prod Flag id) (DeletePageImpl s pid)"

fun run :: "request list \<Rightarrow> BufferPoolManager \<Rightarrow> (reply list \<times> BufferPoolManager) outcome" where
  "run [] s = Return ([], s)"
| "run (q # qs) s =
     (case call q s of
        Return (r, s') \<Rightarrow> map_outcome (map_prod (Cons r) id) (run qs s')
      | Blocked \<Rightarrow> Blocked
      | OutOfBounds \<Rightarrow> OutOfBounds)"

subsection \<open>Example states\<close>

text \<open>A disk on which nothing has been allocated yet, with pages of \<open>PAGE_SIZE\<close> zero bytes.\<close>

definition fresh_disk :: "nat \<Rightarrow> DiskManager" where
  "fresh_disk PAGE_SIZE =
     \<lparr>disk_pages = (\<lambda>pid. replicate PAGE_SIZE 0), next_page_id = 0, disk_calls = []\<rparr>"

text \<open>
  A pool of two frames: frame 0 holds page 4, dirty and unpinned, and is the only
  entry of the replacer; frame 1 is free.
\<close>

definition sample_pool :: BufferPoolManager where
  "sample_pool =
     \<lparr>pool_size = 2,
      pages = [\<lparr>data = [1, 2], page_id = 4, pin_count = 0, is_dirty = True\<rparr>,
               \<lparr>data = [0, 0], page_id = INVALID_PAGE_ID, pin_count = 0, is_dirty = False\<rparr>],
      page_table = [4 \<mapsto> 0],
      free_list = [1],
      replacer = \<lparr>max_pages = 2, victim_queue = [0], frame_in_replacer = {0}\<rparr>,
      disk_manager = \<lparr>disk_pages = (\<lambda>pid. [0, 0]), next_page_id = 5, disk_calls = []\<rparr>,
      latch = False\<rparr>"

text \<open>A pool of one frame, which holds page 0 with one pin: nothing is free or evictable.\<close>

definition pinned_pool :: BufferPoolManager where
  "pinned_pool =
     \<lparr>pool_size = 1,
      pages = [\<lparr>data = [0, 0], page_id = 0, pin_count = 1, is_dirty = False\<rparr>],
      page_table = [0 \<mapsto> 0],
      free_list = [],
      replacer = \<lparr>max_pages = 1, victim_queue = [], frame_in_replacer = {}\<rparr>,
      disk_manager = \<lparr>disk_pages = (\<lambda>pid. [0, 0]), next_page_id = 1, disk_calls = []\<rparr>,
      latch = False\<rparr>"

section \<open>Well-formed states\<close>

text \<open>
  Every frame id stored in the page table, the free list or the replacer's queue is
  an index of the frame array.
\<close>

definition frames_in_range :: "BufferPoolManager \<Rightarrow> bool" where
  "frames_in_range s \<longleftrightarrow>
     (\<forall>pid f. page_table s pid = Some f \<longrightarrow> f < length (pages s)) \<and>
     (\<forall>f \<in> set (free_list s). f < length (pages s)) \<and>
     (\<forall>f \<in> set (victim_queue (replacer s)). f < length (pages s))"

section \<open>The invariant of the pool\<close>









section \<open>Evaluation\<close>

lemmas bpm_defs =
  new_BufferPoolManager_def fresh_disk_def new_Page_def new_LRUReplacer_def
  FetchPageImpl_def UnpinPageImpl_def FlushPageImpl_def NewPageImpl_def DeletePageImpl_def
  find_replacement_def set_page_def page_table_index_def Victim_def Pin_def Unpin_def
  ReadPage_def WritePage_def AllocatePage_def DeallocatePage_def INVALID_PAGE_ID_def Let_def
  eval_nat_numeral

section \<open>The replacer\<close>

text \<open>
  C9.  \<open>Unpin\<close> is idempotent: on a frame that is already in the membership set it
  changes neither the queue nor the set, and therefore a second \<open>Unpin\<close> of a frame
  right after a first one changes nothing, whatever the replacer looked like before.
\<close>

theorem Unpin_idempotent:
  "(frame_id \<in> frame_in_replacer r \<longrightarrow> Unpin r frame_id = r) \<and>
   Unpin (Unpin r frame_id) frame_id = Unpin r frame_id"
  by (simp add: Unpin_def)

theorem Unpin_idempotent_witness:
  "(2::nat) \<in> frame_in_replacer \<lparr>max_pages = 3, victim_queue = [1, 2], frame_in_replacer = {1, 2}\<rparr> \<and>
   Unpin \<lparr>max_pages = 3, victim_queue = [1, 2], frame_in_replacer = {1, 2}\<rparr> 2 =
     \<lparr>max_pages = 3, victim_queue = [1, 2], frame_in_replacer = {1, 2}\<rparr> \<and>
   Unpin (Unpin \<lparr>max_pages = 3, victim_queue = [1], frame_in_replacer = {1}\<rparr> 2) 2 =
     \<lparr>max_pages = 3, victim_queue = [1, 2], frame_in_replacer = {1, 2}\<rparr>"
  using Unpin_idempotent [of 2 "\<lparr>max_pages = 3, victim_queue = [1, 2], frame_in_replacer = {1, 2}\<rparr>"]
    Unpin_idempotent [of 2 "\<lparr>max_pages = 3, victim_queue = [1], frame_in_replacer = {1}\<rparr>"]
  by (simp add: Unpin_def insert_commute)

section \<open>\<open>FetchPageImpl\<close>\<close>

text \<open>
  C8, as amended.  In a state whose latch is free and whose frame ids are indices
  of the frame array, \<open>FetchPageImpl\<close> returns no frame exactly when the page is not in the page
  table, the free list is empty and the replacer's queue is empty; in every other
  case it returns a frame.
\<close>

theorem FetchPageImpl_none_iff:
  assumes "\<not> latch s" and "frames_in_range s"
  shows "((\<exists>s'. FetchPageImpl s pid = Return (None, s')) \<longleftrightarrow>
           page_table s pid = None \<and> free_list s = [] \<and> Size (replacer s) = 0) \<and>
         ((\<exists>f s'. FetchPageImpl s pid = Return (Some f, s')) \<longleftrightarrow>
           \<not> (page_table s pid = None \<and> free_list s = [] \<and> Size (replacer s) = 0))"
  using assms
  by (auto simp: FetchPageImpl_def frames_in_range_def find_replacement_def Victim_def Size_def
      Let_def split: option.splits list.splits prod.splits if_splits)

theorem FetchPageImpl_none_iff_witness:
  "\<not> latch pinned_pool \<and> frames_in_range pinned_pool \<and>
   (\<exists>s'. FetchPageImpl pinned_pool 1 = Return (None, s')) \<and>
   page_table pinned_pool 1 = None \<and> free_list pinned_pool = [] \<and> Size (replacer pinned_pool) = 0 \<and>
   \<not> latch sample_pool \<and> frames_in_range sample_pool \<and>
   (\<exists>f s'. FetchPageImpl sample_pool 3 = Return (Some f, s')) \<and>
   free_list sample_pool = [1]"
  using FetchPageImpl_none_iff [of pinned_pool 1] FetchPageImpl_none_iff [of sample_pool 3]
  by (simp add: pinned_pool_def sample_pool_def frames_in_range_def Size_def)

text \<open>
  C8, as stated, fails where an earlier call has left the latch held.  After
  \<open>NewPage\<close>, \<open>UnpinPage 0 false\<close>, \<open>NewPage\<close> and a \<open>FetchPage 0\<close> that finds no frame, page
  1 is resident and the latch is held; \<open>FetchPage 1\<close> then returns neither a frame nor
  nothing: it never gets the latch.
\<close>

theorem FetchPageImpl_blocked_by_held_latch:
  "map_outcome (\<lambda>(rs, s). (rs, page_table s 1, latch s))
     (run [NewPage, UnpinPage 0 False, NewPage, FetchPage 0]
        (new_BufferPoolManager 1 2 (fresh_disk 2)))
   = Return ([NewFrame (Some (0, 0)), Flag True, NewFrame (Some (1, 0)), Frame None], Some 0, True) \<and>
   run [NewPage, UnpinPage 0 False, NewPage, FetchPage 0, FetchPage 1]
     (new_BufferPoolManager 1 2 (fresh_disk 2))
   = Blocked"
  by (simp add: bpm_defs)

section \<open>\<open>DeletePageImpl\<close>\<close>

text \<open>
  C10, as amended.  When the page is not in the page table and the latch is free,
  \<open>DeletePageImpl\<close> returns \<open>true\<close> and the state it leaves is the state it found: no
  call of the disk manager is recorded, so the page is not deallocated on disk.
\<close>

theorem DeletePageImpl_not_resident:
  "\<not> latch s \<Longrightarrow> page_table s pid = None \<Longrightarrow> DeletePageImpl s pid = Return (True, s)"
  by (simp add: DeletePageImpl_def)

theorem DeletePageImpl_not_resident_witness:
  "\<not> latch sample_pool \<and> page_table sample_pool 9 = None \<and>
   DeletePageImpl sample_pool 9 = Return (True, sample_pool)"
  using DeletePageImpl_not_resident [of sample_pool 9]
  by (simp add: sample_pool_def)

text \<open>
  C10, as stated, fails where an earlier call has left the latch held.  After
  \<open>FlushPage 5\<close> on a new pool, page 9 is not in the page table and the latch is held;
  \<open>DeletePage 9\<close> then does not return \<open>true\<close>: it never gets the latch.
\<close>

theorem DeletePageImpl_blocked_by_held_latch:
  "map_outcome (\<lambda>(rs, s). (rs, page_table s 9, latch s))
     (run [FlushPage 5] (new_BufferPoolManager 1 2 (fresh_disk 2)))
   = Return ([Flag False], None, True) \<and>
   run [FlushPage 5, DeletePage 9] (new_BufferPoolManager 1 2 (fresh_disk 2))
   = Blocked"
  by (simp add: bpm_defs)

text \<open>
  C3, as amended.  When the page is resident in frame \<open>f\<close> with pin count zero (and
  the latch is free), \<open>DeletePageImpl\<close> returns \<open>true\<close>, records one call of
  \<open>DeallocatePage\<close>, removes the entry of the page table, leaves the frame with
  \<open>page_id = INVALID_PAGE_ID\<close>, a clear dirty bit and pin count zero, appends the
  frame to the free list, and leaves the replacer as it was.
\<close>

theorem DeletePageImpl_unpinned:
  assumes "\<not> latch s" and "page_table s pid = Some f" and "f < length (pages s)"
    and "pin_count (pages s ! f) = 0"
  shows "\<exists>s'. DeletePageImpl s pid = Return (True, s') \<and>
     disk_calls (disk_manager s') = disk_calls (disk_manager s) @ [CallDeallocatePage pid] \<and>
     page_table s' = (page_table s)(pid := None) \<and>
     page_id (pages s' ! f) = INVALID_PAGE_ID \<and>
     \<not> is_dirty (pages s' ! f) \<and>
     pin_count (pages s' ! f) = 0 \<and>
     free_list s' = free_list s @ [f] \<and>
     replacer s' = replacer s \<and>
     \<not> latch s'"
  using assms by (simp add: DeletePageImpl_def set_page_def DeallocatePage_def Let_def)

theorem DeletePageImpl_unpinned_witness:
  "\<not> latch sample_pool \<and> page_table sample_pool 4 = Some 0 \<and> 0 < length (pages sample_pool) \<and>
   pin_count (pages sample_pool ! 0) = 0 \<and>
   (\<exists>s'. DeletePageImpl sample_pool 4 = Return (True, s') \<and>
     disk_calls (disk_manager s') = [CallDeallocatePage 4] \<and>
     page_table s' = Map.empty \<and>
     page_id (pages s' ! 0) = INVALID_PAGE_ID \<and>
     \<not> is_dirty (pages s' ! 0) \<and>
     pin_count (pages s' ! 0) = 0 \<and>
     free_list s' = [1, 0] \<and>
     replacer s' = \<lparr>max_pages = 2, victim_queue = [0], frame_in_replacer = {0}\<rparr> \<and>
     \<not> latch s')"
  using DeletePageImpl_unpinned [of sample_pool 4 0]
  by (simp add: sample_pool_def)

text \<open>
  C3, as stated, fails: after \<open>NewPage\<close> and \<open>UnpinPage\<close>, page 0 is resident in frame 0
  with pin count zero and frame 0 is in the replacer; \<open>DeletePage 0\<close> returns \<open>true\<close> and
  frame 0 is in the free list and still in the replacer.
\<close>

theorem DeletePageImpl_keeps_replacer_entry:
  "map_outcome (\<lambda>(rs, s). (rs, page_table s 0, pin_count (pages s ! 0),
       victim_queue (replacer s), 0 \<in> frame_in_replacer (replacer s)))
     (run [NewPage, UnpinPage 0 False] (new_BufferPoolManager 1 2 (fresh_disk 2)))
   = Return ([NewFrame (Some (0, 0)), Flag True], Some 0, 0, [0], True) \<and>
   map_outcome (\<lambda>(rs, s). (rs, page_table s 0, free_list s,
       victim_queue (replacer s), 0 \<in> frame_in_replacer (replacer s)))
     (run [NewPage, UnpinPage 0 False, DeletePage 0] (new_BufferPoolManager 1 2 (fresh_disk 2)))
   = Return ([NewFrame (Some (0, 0)), Flag True, Flag True], None, [0], [0], True)"
  by (simp add: bpm_defs)

section \<open>\<open>NewPageImpl\<close>\<close>

text \<open>
  C2 at a concrete trace.  After \<open>NewPage\<close> and \<open>UnpinPage 0 false\<close> on a pool of one
  frame, frame 0 holds page 0 with a clear dirty bit.  The next \<open>NewPage\<close> reuses
  frame 0, and the disk manager records a \<open>WritePage\<close> of page 0.
\<close>

theorem NewPageImpl_writes_clean_occupant:
  "map_outcome (\<lambda>(rs, s). (rs, is_dirty (pages s ! 0), page_id (pages s ! 0)))
     (run [NewPage, UnpinPage 0 False] (new_BufferPoolManager 1 2 (fresh_disk 2)))
   = Return ([NewFrame (Some (0, 0)), Flag True], False, 0) \<and>
   map_outcome (\<lambda>(rs, s). (rs, disk_calls (disk_manager s)))
     (run [NewPage, UnpinPage 0 False, NewPage] (new_BufferPoolManager 1 2 (fresh_disk 2)))
   = Return ([NewFrame (Some (0, 0)), Flag True, NewFrame (Some (1, 0))],
             [CallAllocatePage 0, CallAllocatePage 1, CallWritePage 0 [0, 0]])"
  by (simp add: bpm_defs)

section \<open>\<open>UnpinPageImpl\<close>\<close>

text \<open>
  C4 at a concrete trace.  After \<open>NewPage\<close> on a pool of one frame, page 7 is not in
  the page table and frame 0 holds page 0 with one pin.  \<open>UnpinPage 7 false\<close> returns
  \<open>true\<close>; afterwards the page table maps page 7 to frame 0, the pin count of frame 0
  is zero and frame 0 is in the replacer.
\<close>

theorem UnpinPageImpl_phantom_entry:
  "map_outcome (\<lambda>(rs, s). (rs, page_table s 7, pin_count (pages s ! 0), victim_queue (replacer s)))
     (run [NewPage] (new_BufferPoolManager 1 2 (fresh_disk 2)))
   = Return ([NewFrame (Some (0, 0))], None, 1, []) \<and>
   map_outcome (\<lambda>(rs, s). (rs, page_table s 7, pin_count (pages s ! 0), victim_queue (replacer s)))
     (run [NewPage, UnpinPage 7 False] (new_BufferPoolManager 1 2 (fresh_disk 2)))
   = Return ([NewFrame (Some (0, 0)), Flag True], Some 0, 0, [0])"
  by (simp add: bpm_defs)

text \<open>
  C5 at a concrete trace.  Page 0 is pinned twice; \<open>UnpinPage 0 true\<close> sets the dirty
  bit of its frame, and the following \<open>UnpinPage 0 false\<close> clears it.
\<close>

theorem UnpinPageImpl_clears_dirty:
  "map_outcome (\<lambda>(rs, s). (rs, page_table s 0, is_dirty (pages s ! 0)))
     (run [NewPage, FetchPage 0, UnpinPage 0 True] (new_BufferPoolManager 1 2 (fresh_disk 2)))
   = Return ([NewFrame (Some (0, 0)), Frame (Some 0), Flag True], Some 0, True) \<and>
   map_outcome (\<lambda>(rs, s). (rs, page_table s 0, is_dirty (pages s ! 0)))
     (run [NewPage, FetchPage 0, UnpinPage 0 True, UnpinPage 0 False]
        (new_BufferPoolManager 1 2 (fresh_disk 2)))
   = Return ([NewFrame (Some (0, 0)), Frame (Some 0), Flag True, Flag True], Some 0, False)"
  by (simp add: bpm_defs)

text \<open>
  C6 at concrete traces.  After \<open>NewPage\<close> and \<open>UnpinPage 0 true\<close>, page 0 is resident
  with pin count zero and its dirty bit set.  \<open>UnpinPage 0 false\<close> returns \<open>false\<close> and
  leaves the pin count at zero, and the dirty bit is clear afterwards.  In the same
  way \<open>UnpinPage 0 true\<close> sets the dirty bit of an unpinned clean page.
\<close>

theorem UnpinPageImpl_unpinned_writes_dirty:
  "map_outcome (\<lambda>(rs, s). (rs, page_table s 0, pin_count (pages s ! 0), is_dirty (pages s ! 0)))
     (run [NewPage, UnpinPage 0 True] (new_BufferPoolManager 1 2 (fresh_disk 2)))
   = Return ([NewFrame (Some (0, 0)), Flag True], Some 0, 0, True) \<and>
   map_outcome (\<lambda>(rs, s). (rs, page_table s 0, pin_count (pages s ! 0), is_dirty (pages s ! 0)))
     (run [NewPage, UnpinPage 0 True, UnpinPage 0 False] (new_BufferPoolManager 1 2 (fresh_disk 2)))
   = Return ([NewFrame (Some (0, 0)), Flag True, Flag False], Some 0, 0, False) \<and>
   map_outcome (\<lambda>(rs, s). (rs, page_table s 0, pin_count (pages s ! 0), is_dirty (pages s ! 0)))
     (run [NewPage, UnpinPage 0 False] (new_BufferPoolManager 1 2 (fresh_disk 2)))
   = Return ([NewFrame (Some (0, 0)), Flag True], Some 0, 0, False) \<and>
   map_outcome (\<lambda>(rs, s). (rs, page_table s 0, pin_count (pages s ! 0), is_dirty (pages s ! 0)))
     (run [NewPage, UnpinPage 0 False, UnpinPage 0 True] (new_BufferPoolManager 1 2 (fresh_disk 2)))
   = Return ([NewFrame (Some (0, 0)), Flag True, Flag False], Some 0, 0, True)"
  by (simp add: bpm_defs)

text \<open>
  What \<open>UnpinPageImpl\<close> does to a resident page without pins, in general: it returns
  \<open>false\<close>, and the state differs from the one before in the dirty bit of the frame
  at most, which is the argument.
\<close>

lemma UnpinPageImpl_unpinned_frame:
  assumes "\<not> latch s" and "page_table s pid = Some f" and "f < length (pages s)"
    and "sint (pin_count (pages s ! f)) \<le> 0"
  shows "UnpinPageImpl s pid dirty =
    Return (False, s\<lparr>pages := (pages s)[f := (pages s ! f)\<lparr>is_dirty := dirty\<rparr>]\<rparr>)"
  using assms by (simp add: UnpinPageImpl_def page_table_index_def set_page_def Let_def)

section \<open>The latch\<close>

text \<open>
  C7 at concrete traces.  \<open>FlushPage\<close> of a page that is not resident, and of
  \<open>INVALID_PAGE_ID\<close>, returns \<open>false\<close> with the latch held.  \<open>NewPage\<close> on a pool without
  free or evictable frame returns nothing with the latch free, while \<open>FetchPage\<close> in
  the same situation returns nothing with the latch held; the call after it never
  gets the latch.
\<close>

theorem latch_left_held:
  "map_outcome (\<lambda>(rs, s). (rs, latch s))
     (run [FlushPage 5] (new_BufferPoolManager 1 2 (fresh_disk 2)))
   = Return ([Flag False], True) \<and>
   map_outcome (\<lambda>(rs, s). (rs, latch s))
     (run [FlushPage INVALID_PAGE_ID] (new_BufferPoolManager 1 2 (fresh_disk 2)))
   = Return ([Flag False], True) \<and>
   map_outcome (\<lambda>(rs, s). (rs, latch s))
     (run [NewPage, NewPage] (new_BufferPoolManager 1 2 (fresh_disk 2)))
   = Return ([NewFrame (Some (0, 0)), NewFrame None], False) \<and>
   map_outcome (\<lambda>(rs, s). (rs, latch s))
     (run [NewPage, UnpinPage 0 False, NewPage, FetchPage 0]
        (new_BufferPoolManager 1 2 (fresh_disk 2)))
   = Return ([NewFrame (Some (0, 0)), Flag True, NewFrame (Some (1, 0)), Frame None], True) \<and>
   run [NewPage, UnpinPage 0 False, NewPage, FetchPage 0, UnpinPage 1 False]
     (new_BufferPoolManager 1 2 (fresh_disk 2))
   = Blocked"
  by (simp add: bpm_defs)

section \<open>Evictability\<close>

subsection \<open>Auxiliary facts\<close>

























subsection \<open>Each operation keeps the invariant\<close>







subsection \<open>Traces\<close>







text \<open>
  Why traces are restricted to admissible ones.  \<open>UnpinPage\<close> of a page that is not
  resident enters frame 0 into the page table with pin count zero and not into the
  replacer.  After \<open>FetchPage\<close> of \<open>INVALID_PAGE_ID\<close>, or of an id that the disk manager
  hands out only later, a \<open>NewPage\<close> removes or overwrites the page-table entry of
  frame 0, which stays in the replacer and is neither resident nor free.
\<close>

lemma preconditions_needed:
  "map_outcome (\<lambda>(rs, s). (rs, 0 \<in> ran (page_table s), pin_count (pages s ! 0),
       0 \<in> frame_in_replacer (replacer s)))
     (run [UnpinPage 7 False] (new_BufferPoolManager 1 2 (fresh_disk 2)))
   = Return ([Flag False], True, 0, False) \<and>
   map_outcome (\<lambda>(rs, s). (rs, 0 \<in> frame_in_replacer (replacer s), 0 \<in> ran (page_table s),
       0 \<in> set (free_list s)))
     (run [FetchPage INVALID_PAGE_ID, UnpinPage INVALID_PAGE_ID False, NewPage]
        (new_BufferPoolManager 2 2 (fresh_disk 2)))
   = Return ([Frame (Some 0), Flag True, NewFrame (Some (0, 1))], True, False, False) \<and>
   map_outcome (\<lambda>(rs, s). (rs, 0 \<in> frame_in_replacer (replacer s), 0 \<in> ran (page_table s),
       0 \<in> set (free_list s)))
     (run [FetchPage 0, UnpinPage 0 False, NewPage] (new_BufferPoolManager 2 2 (fresh_disk 2)))
   = Return ([Frame (Some 0), Flag True, NewFrame (Some (0, 1))], True, False, False)"
  by (simp add: bpm_defs)

text \<open>
  The 32-bit pin count wraps.  A \<open>FetchPage\<close> of a resident page with 2147483647 pins
  leaves -2147483648 pins; and had the count come round to -1, the next \<open>FetchPage\<close>
  would leave the page resident with pin count zero and not in the replacer.
\<close>

lemma FetchPageImpl_pin_count_wraps:
  "map_outcome (\<lambda>(r, s). (r, sint (pin_count (pages s ! 0))))
     (FetchPageImpl
        (pinned_pool\<lparr>pages :=
           [\<lparr>data = [0, 0], page_id = 0, pin_count = 2147483647, is_dirty = False\<rparr>]\<rparr>) 0)
   = Return (Some 0, - 2147483648) \<and>
   map_outcome (\<lambda>(r, s). (r, page_table s 0, pin_count (pages s ! 0),
       0 \<in> frame_in_replacer (replacer s)))
     (FetchPageImpl
        (pinned_pool\<lparr>pages :=
           [\<lparr>data = [0, 0], page_id = 0, pin_count = - 1, is_dirty = False\<rparr>]\<rparr>) 0)
   = Return (Some 0, Some 0, 0, False)"
  by (simp add: bpm_defs pinned_pool_def)

end
